theory Spec2Isabelle
  imports Main "HOL-Library.Log_Nat"
begin

section \<open>Data model\<close>

text \<open>
  The voucher service keeps two tables in its store: \<open>vouchers\<close> and
  \<open>voucher_redemptions\<close>. A row is a record whose fields are the columns the handlers of
  \<open>src/server.js\<close> read or write. The column \<open>id\<close> of both tables is renamed (\<open>vid\<close>,
  \<open>rid\<close>) because \<open>id\<close> is the identity function of HOL.

  Every number of a request or of a row is a JavaScript number with an integer value:
  the request schemas demand integers, and the columns are integer columns. Such a
  number is modelled as its value, an \<open>int\<close>; it is compared exactly. The counter
  \<open>total_redeemed\<close> is an integer column of the database (32 bits in PostgreSQL), so
  that \<open>total_redeemed + 1\<close> is exact. What the
  handler computes from an order amount is not: \<open>order_amount\<close> may be any integer that
  is a double, and the discount and the final amount are computed in IEEE 754 double
  arithmetic. They are of type \<open>number\<close>, a finite value or an infinity (which JSON
  carries as \<open>null\<close>). Timestamps are modelled as integers (milliseconds), a nullable
  column as an \<open>option\<close>.
\<close>

datatype number = Finite rat | PosInfinity | NegInfinity

datatype discount_type = PERCENT | FIXED

datatype status = SUCCESS | CANCELLED | REFUNDED

record voucher =
  vid :: string
  code :: string
  name :: string
  description :: "string option"
  discount_type :: discount_type
  discount_value :: int
  currency :: string
  min_order_amount :: int
  max_discount_amount :: "int option"
  max_total_redemptions :: int
  total_redeemed :: int
  start_at :: "int option"
  end_at :: "int option"
  is_active :: bool
  created_by :: string

record redemption =
  rid :: string
  voucher_id :: string
  user_id :: string
  order_id :: "string option"
  order_amount :: int
  discount_amount :: number
  final_amount :: number
  status :: status
  redeemed_at :: int

record db =
  vouchers :: "voucher list"
  voucher_redemptions :: "redemption list"

section \<open>JavaScript arithmetic\<close>

text \<open>
  A double has a significand of 53 bits. The result of \<open>*\<close>, \<open>/\<close> and \<open>-\<close> is the exact
  result rounded to the nearest double, a tie going to the even significand, and an
  infinity when the rounded value is \<open>2^1024\<close> or more. \<open>exponent m\<close> is the \<open>e\<close> with
  \<open>2^e \<le> m < 2^(e+1)\<close>, for a positive \<open>m\<close>; below \<open>2^-1022\<close> the spacing of the
  doubles stays that of \<open>2^-1022\<close>.
\<close>

definition round_even :: "rat \<Rightarrow> int" where
  "round_even x =
     (let f = \<lfloor>x\<rfloor>; r = x - of_int f
      in if r < 1 / 2 then f
         else if 1 / 2 < r then f + 1
         else if even f then f else f + 1)"

definition exponent :: "rat \<Rightarrow> int" where
  "exponent m =
     (if 1 \<le> m then bitlen \<lfloor>m\<rfloor> - 1 else - bitlen (- \<lfloor>- (1 / m)\<rfloor> - 1))"

definition round_pos :: "rat \<Rightarrow> number" where
  "round_pos m =
     (let e = max (exponent m) (- 1022);
          u = 2 powi (e - 52);
          y = of_int (round_even (m / u)) * u
      in if 2 powi 1024 \<le> y then PosInfinity else Finite y)"

definition negate :: "number \<Rightarrow> number" where
  "negate x =
     (case x of
        Finite y \<Rightarrow> Finite (- y)
      | PosInfinity \<Rightarrow> NegInfinity
      | NegInfinity \<Rightarrow> PosInfinity)"

text \<open>\<open>fl x\<close>: the double nearest to the exact value \<open>x\<close>.\<close>

definition fl :: "rat \<Rightarrow> number" where
  "fl x =
     (if x = 0 then Finite 0
      else if 0 < x then round_pos x
      else negate (round_pos (- x)))"

text \<open>
  The operations the handler applies, on the operands it applies them to: the product
  of two integer numbers, a quotient by a positive integer, \<open>Math.floor\<close>, \<open>x > m\<close> for
  an integer \<open>m\<close>, and an integer less a number.
\<close>

definition js_times :: "int \<Rightarrow> int \<Rightarrow> number" where
  "js_times a b = fl (of_int a * of_int b)"

definition js_divide :: "number \<Rightarrow> int \<Rightarrow> number" where
  "js_divide x k =
     (case x of
        Finite p \<Rightarrow> fl (p / of_int k)
      | PosInfinity \<Rightarrow> PosInfinity
      | NegInfinity \<Rightarrow> NegInfinity)"

definition js_floor :: "number \<Rightarrow> number" where
  "js_floor x =
     (case x of
        Finite q \<Rightarrow> Finite (of_int \<lfloor>q\<rfloor>)
      | PosInfinity \<Rightarrow> PosInfinity
      | NegInfinity \<Rightarrow> NegInfinity)"

definition js_greater :: "number \<Rightarrow> int \<Rightarrow> bool" where
  "js_greater x m =
     (case x of
        Finite q \<Rightarrow> of_int m < q
      | PosInfinity \<Rightarrow> True
      | NegInfinity \<Rightarrow> False)"

definition js_minus :: "int \<Rightarrow> number \<Rightarrow> number" where
  "js_minus a x =
     (case x of
        Finite q \<Rightarrow> fl (of_int a - q)
      | PosInfinity \<Rightarrow> NegInfinity
      | NegInfinity \<Rightarrow> PosInfinity)"

section \<open>Discount computation\<close>

text \<open>
  Lines 422-441 of \<open>src/server.js\<close>, inside the redeem handler. The guard
  \<open>voucher.max_discount_amount && ...\<close> is a JavaScript truthiness test: it is false for
  \<open>null\<close> and also for the number \<open>0\<close>.
\<close>

definition truthy :: "int option \<Rightarrow> bool" where
  "truthy x = (case x of None \<Rightarrow> False | Some n \<Rightarrow> n \<noteq> 0)"

definition compute_discount :: "voucher \<Rightarrow> int \<Rightarrow> number" where
  "compute_discount v amount =
     (case discount_type v of
        PERCENT \<Rightarrow>
          (let d = js_floor (js_divide (js_times amount (discount_value v)) 100)
           in (case max_discount_amount v of
                 None \<Rightarrow> d
               | Some m \<Rightarrow> if truthy (Some m) \<and> js_greater d m then Finite (of_int m) else d))
      | FIXED \<Rightarrow>
          (let d = discount_value v
           in if d > amount then Finite (of_int amount) else Finite (of_int d)))"

definition compute_final :: "voucher \<Rightarrow> int \<Rightarrow> number" where
  "compute_final v amount = js_minus amount (compute_discount v amount)"

section \<open>The store and its environment\<close>

text \<open>
  The handlers reach the store through the Supabase client. Each awaited call is one
  atomic statement; between two calls of one request other requests may run. The
  environment of a request records what the handler cannot decide itself:
  \<^item> \<open>now\<close>, the value of \<open>new Date()\<close> in the handler;
  \<^item> \<open>db_clock\<close> and \<open>fresh_id\<close>, the defaults the database gives to \<open>redeemed_at\<close> and
    to the \<open>id\<close> of an inserted row;
  \<^item> \<open>fails k\<close>, whether the \<open>k\<close>-th storage call of the request (counted from 0) comes
    back with an \<open>error\<close>; a failed statement changes nothing;
  \<^item> \<open>others k\<close>, what other clients did to the store since the previous storage call
    of this request and before its \<open>k\<close>-th one.
\<close>

record env =
  now :: int
  db_clock :: int
  fresh_id :: string
  fails :: "nat \<Rightarrow> bool"
  others :: "nat \<Rightarrow> db \<Rightarrow> db"

text \<open>
  \<open>.single()\<close> yields the row when the query has exactly one row, and \<open>data = null\<close>
  together with an error when it has none or several.
\<close>

definition single :: "'a list \<Rightarrow> 'a option" where
  "single rows = (case rows of [r] \<Rightarrow> Some r | _ \<Rightarrow> None)"

text \<open>
  \<open>.update(values).eq(...)\<close> changes every row that matches the filters. A statement
  that matches no row is not an error.
\<close>

definition update_vouchers :: "(voucher \<Rightarrow> bool) \<Rightarrow> (voucher \<Rightarrow> voucher) \<Rightarrow> db \<Rightarrow> db" where
  "update_vouchers P f d = d\<lparr>vouchers := map (\<lambda>r. if P r then f r else r) (vouchers d)\<rparr>"

definition delete_vouchers :: "(voucher \<Rightarrow> bool) \<Rightarrow> db \<Rightarrow> db" where
  "delete_vouchers P d = d\<lparr>vouchers := filter (\<lambda>r. \<not> P r) (vouchers d)\<rparr>"

text \<open>
  The schema of the repository's documentation declares \<open>vouchers.id\<close> a primary key and
  \<open>vouchers.code\<close> unique: an insert that would break either comes back with an error.
\<close>

definition insert_voucher_rejected :: "voucher \<Rightarrow> db \<Rightarrow> bool" where
  "insert_voucher_rejected row d =
     (vid row \<in> set (map vid (vouchers d)) \<or> code row \<in> set (map code (vouchers d)))"

section \<open>Requests and responses\<close>

record user =
  uid :: string
  email :: string
  role :: "string option"

record redeem_body =
  body_order_amount :: int
  body_order_id :: "string option"

record create_body =
  new_code :: string
  new_name :: string
  new_description :: "string option"
  new_discount_type :: discount_type
  new_discount_value :: int
  new_currency :: "string option"
  new_min_order_amount :: "int option"
  new_max_discount_amount :: "int option"
  new_max_total_redemptions :: "int option"
  new_start_at :: "int option"
  new_end_at :: "int option"

record update_body =
  upd_name :: "string option"
  upd_description :: "string option"
  upd_discount_type :: "discount_type option"
  upd_discount_value :: "int option"
  upd_currency :: "string option"
  upd_min_order_amount :: "int option"
  upd_max_discount_amount :: "int option"
  upd_max_total_redemptions :: "int option"
  upd_start_at :: "int option"
  upd_end_at :: "int option"
  upd_is_active :: "bool option"

record redeem_data =
  res_voucher_code :: string
  res_voucher_name :: string
  res_discount_type :: discount_type
  res_discount_value :: int
  res_order_amount :: int
  res_discount_amount :: number
  res_final_amount :: number
  res_currency :: string
  res_redeemed_at :: int

text \<open>
  The three bodies of a 400 "Validation Error" and the five bodies of a 500
  "Database Error", by the place that sends them.
\<close>

datatype validation = SchemaInvalid | PercentOver100 | EndBeforeStart

datatype db_failure =
    RedeemUpdateFailed \<comment> \<open>"Gagal memproses redeem, silakan coba lagi"\<close>
  | RedemptionInsertFailed \<comment> \<open>"Gagal menyimpan redemption"\<close>
  | CreateFailed \<comment> \<open>"Gagal membuat voucher"\<close>
  | UpdateFailed \<comment> \<open>"Gagal update voucher"\<close>
  | DeleteFailed \<comment> \<open>"Gagal delete voucher"\<close>

text \<open>
  One constructor for each \<open>res.status(...).json(...)\<close> of the handlers and the
  middleware. The 400 "Bad Request" answers of the redeem handler are told apart by their
  message and named as the specification names them.
\<close>

datatype response =
    Unauthorized \<comment> \<open>401\<close>
  | Forbidden \<comment> \<open>403\<close>
  | ValidationError validation \<comment> \<open>400\<close>
  | NotFound \<comment> \<open>404\<close>
  | Conflict \<comment> \<open>409, the code is taken\<close>
  | Inactive \<comment> \<open>400 "Voucher sudah tidak aktif"\<close>
  | NotStarted "int option" \<comment> \<open>400 "Voucher belum bisa digunakan", with \<open>start_at\<close>\<close>
  | Expired "int option" \<comment> \<open>400 "Voucher sudah expired", with \<open>end_at\<close>\<close>
  | Exhausted \<comment> \<open>400 "Voucher sudah habis digunakan"\<close>
  | BelowMinimum string int \<comment> \<open>400 "Minimum order amount adalah ..."\<close>
  | AlreadyRedeemed int \<comment> \<open>400 "Kamu sudah pernah menggunakan voucher ini", with \<open>redeemed_at\<close>\<close>
  | InUse int \<comment> \<open>400 "Tidak bisa delete voucher yang sudah pernah digunakan"\<close>
  | DatabaseError db_failure \<comment> \<open>500\<close>
  | Redeemed redeem_data \<comment> \<open>200\<close>
  | Created voucher \<comment> \<open>201\<close>
  | Updated voucher \<comment> \<open>200\<close>
  | Deleted string \<comment> \<open>200\<close>

section \<open>Middleware\<close>

text \<open>
  \<open>requireAdmin\<close> and \<open>requireUser\<close> of the middleware file that \<open>server.js\<close> loads
  as \<open>./middleware/auth\<close>. \<open>req.user\<close> is what
  \<open>authenticateToken\<close> attached; \<open>Inr\<close> stands for the call of \<open>next()\<close>.
\<close>

definition requireAdmin :: "user option \<Rightarrow> response + user" where
  "requireAdmin req_user =
     (case req_user of
        None \<Rightarrow> Inl Unauthorized
      | Some u \<Rightarrow> if role u \<noteq> Some ''ADMIN'' then Inl Forbidden else Inr u)"

definition requireUser :: "user option \<Rightarrow> response + user" where
  "requireUser req_user =
     (case req_user of
        None \<Rightarrow> Inl Unauthorized
      | Some u \<Rightarrow> if role u \<noteq> Some ''USER'' then Inl Forbidden else Inr u)"

section \<open>Redeeming a voucher\<close>

text \<open>
  \<open>POST /vouchers/:code/redeem\<close>, lines 331-513. The storage calls of the handler are
  numbered: 0 reads the voucher by code, 1 reads the caller's redemption of it, 2 is the
  update of \<open>total_redeemed\<close> filtered on the value read, 3 inserts the redemption, 4 is
  the rollback.
\<close>

definition select_voucher_by_code :: "env \<Rightarrow> string \<Rightarrow> db \<Rightarrow> voucher option" where
  "select_voucher_by_code e c d =
     (if fails e 0 then None else single (filter (\<lambda>r. code r = c) (vouchers d)))"

text \<open>Lines 363-404: the checks on the voucher that was read.\<close>

definition check_voucher :: "int \<Rightarrow> voucher \<Rightarrow> int \<Rightarrow> response option" where
  "check_voucher t v amount =
     (if \<not> is_active v then Some Inactive
      else if (case start_at v of None \<Rightarrow> False | Some s \<Rightarrow> t < s)
        then Some (NotStarted (start_at v))
      else if (case end_at v of None \<Rightarrow> False | Some x \<Rightarrow> t > x)
        then Some (Expired (end_at v))
      else if total_redeemed v \<ge> max_total_redemptions v then Some Exhausted
      else if amount < min_order_amount v
        then Some (BelowMinimum (currency v) (min_order_amount v))
      else None)"

text \<open>Lines 406-412: the error of this read is not looked at, only its data.\<close>

definition existing_redeem :: "env \<Rightarrow> voucher \<Rightarrow> string \<Rightarrow> db \<Rightarrow> redemption option" where
  "existing_redeem e v userId d =
     (if fails e 1 then None
      else single (filter (\<lambda>r. voucher_id r = vid v \<and> user_id r = userId)
                     (voucher_redemptions d)))"

definition new_redemption :: "env \<Rightarrow> voucher \<Rightarrow> string \<Rightarrow> redeem_body \<Rightarrow> redemption" where
  "new_redemption e v userId body =
     \<lparr>rid = fresh_id e,
      voucher_id = vid v,
      user_id = userId,
      order_id = (case body_order_id body of
                    None \<Rightarrow> None
                  | Some s \<Rightarrow> if s = [] then None else Some s),
      order_amount = body_order_amount body,
      discount_amount = compute_discount v (body_order_amount body),
      final_amount = compute_final v (body_order_amount body),
      status = SUCCESS,
      redeemed_at = db_clock e\<rparr>"

definition redeem_result :: "voucher \<Rightarrow> redemption \<Rightarrow> redeem_data" where
  "redeem_result v r =
     \<lparr>res_voucher_code = code v,
      res_voucher_name = name v,
      res_discount_type = discount_type v,
      res_discount_value = discount_value v,
      res_order_amount = order_amount r,
      res_discount_amount = discount_amount r,
      res_final_amount = final_amount r,
      res_currency = currency v,
      res_redeemed_at = redeemed_at r\<rparr>"

text \<open>Lines 446-451: the update of the counter, filtered on \<open>id\<close> and on the value read.\<close>

definition increment_counter :: "voucher \<Rightarrow> db \<Rightarrow> db" where
  "increment_counter v d =
     update_vouchers (\<lambda>r. vid r = vid v \<and> total_redeemed r = total_redeemed v)
       (\<lambda>r. r\<lparr>total_redeemed := total_redeemed v + 1\<rparr>) d"

text \<open>Lines 479-483: the rollback, filtered on \<open>id\<close> only; its result is not looked at.\<close>

definition rollback_counter :: "env \<Rightarrow> voucher \<Rightarrow> db \<Rightarrow> db" where
  "rollback_counter e v d =
     (if fails e 4 then d
      else update_vouchers (\<lambda>r. vid r = vid v)
             (\<lambda>r. r\<lparr>total_redeemed := total_redeemed v\<rparr>) d)"

text \<open>
  Lines 443-505: the two writes and the answer. The insert comes back with an error on a
  storage fault and when the new row's \<open>id\<close>, the primary key of the table, is taken.
\<close>

definition redeem_commit :: "env \<Rightarrow> voucher \<Rightarrow> string \<Rightarrow> redeem_body \<Rightarrow> db \<Rightarrow> response \<times> db" where
  "redeem_commit e v userId body d1 =
     (let d2 = others e 2 d1 in
      if fails e 2 then (DatabaseError RedeemUpdateFailed, d2)
      else
        let d3 = others e 3 (increment_counter v d2);
            row = new_redemption e v userId body
        in if fails e 3 \<or> rid row \<in> set (map rid (voucher_redemptions d3))
           then (DatabaseError RedemptionInsertFailed, rollback_counter e v (others e 4 d3))
           else (Redeemed (redeem_result v row),
                 d3\<lparr>voucher_redemptions := voucher_redemptions d3 @ [row]\<rparr>))"

definition redeem_handler :: "env \<Rightarrow> string \<Rightarrow> user \<Rightarrow> redeem_body \<Rightarrow> db \<Rightarrow> response \<times> db" where
  "redeem_handler e c u body d0 =
     (if \<not> 0 < body_order_amount body then (ValidationError SchemaInvalid, d0)
      else
        case select_voucher_by_code e c d0 of
          None \<Rightarrow> (NotFound, d0)
        | Some v \<Rightarrow>
            (case check_voucher (now e) v (body_order_amount body) of
               Some err \<Rightarrow> (err, d0)
             | None \<Rightarrow>
                 (let d1 = others e 1 d0 in
                  case existing_redeem e v (uid u) d1 of
                    Some r \<Rightarrow> (AlreadyRedeemed (redeemed_at r), d1)
                  | None \<Rightarrow> redeem_commit e v (uid u) body d1)))"

definition redeem_route :: "env \<Rightarrow> string \<Rightarrow> user option \<Rightarrow> redeem_body \<Rightarrow> db \<Rightarrow> response \<times> db" where
  "redeem_route e c req_user body d =
     (case requireUser req_user of
        Inl err \<Rightarrow> (err, d)
      | Inr u \<Rightarrow> redeem_handler e c u body d)"

section \<open>Voucher administration\<close>

text \<open>
  \<open>createVoucherSchema\<close>, lines 158-170. A body whose fields have the wrong JavaScript
  type has no counterpart in \<open>create_body\<close>; what is left of the schema are the bounds.
\<close>

definition opt_all :: "('a \<Rightarrow> bool) \<Rightarrow> 'a option \<Rightarrow> bool" where
  "opt_all P x = (case x of None \<Rightarrow> True | Some y \<Rightarrow> P y)"

definition createVoucherSchema :: "create_body \<Rightarrow> bool" where
  "createVoucherSchema b =
     (3 \<le> length (new_code b) \<and> length (new_code b) \<le> 50 \<and>
      3 \<le> length (new_name b) \<and> length (new_name b) \<le> 255 \<and>
      0 < new_discount_value b \<and>
      opt_all (\<lambda>n. 0 \<le> n) (new_min_order_amount b) \<and>
      opt_all (\<lambda>n. 0 \<le> n) (new_max_discount_amount b) \<and>
      opt_all (\<lambda>n. 0 < n) (new_max_total_redemptions b))"

text \<open>Lines 255-260: the parsed body with the schema's defaults, and the three fixed columns.\<close>

definition new_voucher :: "env \<Rightarrow> user \<Rightarrow> create_body \<Rightarrow> voucher" where
  "new_voucher e u b =
     \<lparr>vid = fresh_id e,
      code = new_code b,
      name = new_name b,
      description = new_description b,
      discount_type = new_discount_type b,
      discount_value = new_discount_value b,
      currency = (case new_currency b of None \<Rightarrow> ''IDR'' | Some c \<Rightarrow> c),
      min_order_amount = (case new_min_order_amount b of None \<Rightarrow> 0 | Some n \<Rightarrow> n),
      max_discount_amount = new_max_discount_amount b,
      max_total_redemptions = (case new_max_total_redemptions b of None \<Rightarrow> 1 | Some n \<Rightarrow> n),
      total_redeemed = 0,
      start_at = new_start_at b,
      end_at = new_end_at b,
      is_active = True,
      created_by = uid u\<rparr>"

text \<open>
  \<open>POST /vouchers\<close>, lines 205-285. Storage call 0 looks the code up (only its data is
  looked at), call 1 inserts.
\<close>

definition create_handler :: "env \<Rightarrow> user \<Rightarrow> create_body \<Rightarrow> db \<Rightarrow> response \<times> db" where
  "create_handler e u b d0 =
     (if \<not> createVoucherSchema b then (ValidationError SchemaInvalid, d0)
      else if new_discount_type b = PERCENT \<and> new_discount_value b > 100
        then (ValidationError PercentOver100, d0)
      else if (case (new_start_at b, new_end_at b) of
                 (Some s, Some x) \<Rightarrow> x < s
               | _ \<Rightarrow> False)
        then (ValidationError EndBeforeStart, d0)
      else if \<not> fails e 0 \<and> single (filter (\<lambda>r. code r = new_code b) (vouchers d0)) \<noteq> None
        then (Conflict, d0)
      else
        let d1 = others e 1 d0; row = new_voucher e u b
        in if fails e 1 \<or> insert_voucher_rejected row d1
           then (DatabaseError CreateFailed, d1)
           else (Created row, d1\<lparr>vouchers := vouchers d1 @ [row]\<rparr>))"

definition create_route :: "env \<Rightarrow> user option \<Rightarrow> create_body \<Rightarrow> db \<Rightarrow> response \<times> db" where
  "create_route e req_user b d =
     (case requireAdmin req_user of
        Inl err \<Rightarrow> (err, d)
      | Inr u \<Rightarrow> create_handler e u b d)"

text \<open>\<open>updateSchema\<close>, lines 521-533: every field is optional.\<close>

definition updateSchema :: "update_body \<Rightarrow> bool" where
  "updateSchema b =
     (opt_all (\<lambda>s. 3 \<le> length s \<and> length s \<le> 255) (upd_name b) \<and>
      opt_all (\<lambda>n. 0 < n) (upd_discount_value b) \<and>
      opt_all (\<lambda>n. 0 \<le> n) (upd_min_order_amount b) \<and>
      opt_all (\<lambda>n. 0 \<le> n) (upd_max_discount_amount b) \<and>
      opt_all (\<lambda>n. 0 < n) (upd_max_total_redemptions b))"

text \<open>
  \<open>a || b\<close> on an optional field: the field when it is present and truthy, else \<open>b\<close>.
  An enum string and a datetime string that passed the schema are never empty, hence
  truthy; the number \<open>0\<close> is not.
\<close>

definition or_else :: "'a option \<Rightarrow> 'a \<Rightarrow> 'a" where
  "or_else x y = (case x of None \<Rightarrow> y | Some z \<Rightarrow> z)"

definition or_else_num :: "int option \<Rightarrow> int \<Rightarrow> int" where
  "or_else_num x y = (case x of None \<Rightarrow> y | Some z \<Rightarrow> if z = 0 then y else z)"

definition or_else_opt :: "'a option \<Rightarrow> 'a option \<Rightarrow> 'a option" where
  "or_else_opt x y = (case x of None \<Rightarrow> y | Some z \<Rightarrow> Some z)"

text \<open>\<open>.update(updateData)\<close>: the columns named in the body are overwritten, no other.\<close>

definition apply_update :: "update_body \<Rightarrow> voucher \<Rightarrow> voucher" where
  "apply_update b r =
     r\<lparr>name := or_else (upd_name b) (name r),
       description := or_else_opt (upd_description b) (description r),
       discount_type := or_else (upd_discount_type b) (discount_type r),
       discount_value := or_else (upd_discount_value b) (discount_value r),
       currency := or_else (upd_currency b) (currency r),
       min_order_amount := or_else (upd_min_order_amount b) (min_order_amount r),
       max_discount_amount := or_else_opt (upd_max_discount_amount b) (max_discount_amount r),
       max_total_redemptions := or_else (upd_max_total_redemptions b) (max_total_redemptions r),
       start_at := or_else_opt (upd_start_at b) (start_at r),
       end_at := or_else_opt (upd_end_at b) (end_at r),
       is_active := or_else (upd_is_active b) (is_active r)\<rparr>"

text \<open>
  \<open>PUT /vouchers/:id\<close>, lines 516-612. Storage call 0 reads the voucher by id, call 1 is
  the update, whose \<open>.select().single()\<close> reports an error unless exactly one row was
  changed.
\<close>

definition update_handler :: "env \<Rightarrow> string \<Rightarrow> update_body \<Rightarrow> db \<Rightarrow> response \<times> db" where
  "update_handler e i b d0 =
     (if \<not> updateSchema b then (ValidationError SchemaInvalid, d0)
      else
        case (if fails e 0 then None else single (filter (\<lambda>r. vid r = i) (vouchers d0))) of
          None \<Rightarrow> (NotFound, d0)
        | Some existing \<Rightarrow>
            if or_else (upd_discount_type b) (discount_type existing) = PERCENT \<and>
               or_else_num (upd_discount_value b) (discount_value existing) > 100
              then (ValidationError PercentOver100, d0)
            else if (case (or_else_opt (upd_start_at b) (start_at existing),
                           or_else_opt (upd_end_at b) (end_at existing)) of
                       (Some s, Some x) \<Rightarrow> x < s
                     | _ \<Rightarrow> False)
              then (ValidationError EndBeforeStart, d0)
            else
              let d1 = others e 1 d0 in
              if fails e 1 then (DatabaseError UpdateFailed, d1)
              else
                let d2 = update_vouchers (\<lambda>r. vid r = i) (apply_update b) d1
                in (case single (filter (\<lambda>r. vid r = i) (vouchers d2)) of
                      None \<Rightarrow> (DatabaseError UpdateFailed, d2)
                    | Some r \<Rightarrow> (Updated r, d2)))"

definition update_route :: "env \<Rightarrow> user option \<Rightarrow> string \<Rightarrow> update_body \<Rightarrow> db \<Rightarrow> response \<times> db" where
  "update_route e req_user i b d =
     (case requireAdmin req_user of
        Inl err \<Rightarrow> (err, d)
      | Inr u \<Rightarrow> update_handler e i b d)"

text \<open>
  \<open>DELETE /vouchers/:id\<close>, lines 615-668. Storage call 0 reads \<open>code\<close> and
  \<open>total_redeemed\<close> of the voucher, call 1 deletes it.
\<close>

definition delete_handler :: "env \<Rightarrow> string \<Rightarrow> db \<Rightarrow> response \<times> db" where
  "delete_handler e i d0 =
     (case (if fails e 0 then None else single (filter (\<lambda>r. vid r = i) (vouchers d0))) of
        None \<Rightarrow> (NotFound, d0)
      | Some existing \<Rightarrow>
          if total_redeemed existing > 0 then (InUse (total_redeemed existing), d0)
          else
            let d1 = others e 1 d0 in
            if fails e 1 then (DatabaseError DeleteFailed, d1)
            else (Deleted (code existing), delete_vouchers (\<lambda>r. vid r = i) d1))"

definition delete_route :: "env \<Rightarrow> user option \<Rightarrow> string \<Rightarrow> db \<Rightarrow> response \<times> db" where
  "delete_route e req_user i d =
     (case requireAdmin req_user of
        Inl err \<Rightarrow> (err, d)
      | Inr u \<Rightarrow> delete_handler e i d)"

section \<open>What the specification says, in its own words\<close>





text \<open>
  Section 4.3, step 5 of the specification: the compensation is a decrement that takes
  effect only where the stored counter still has the value this request set.
\<close>

definition conditionalDecrement_spec :: "string \<Rightarrow> int \<Rightarrow> db \<Rightarrow> db" where
  "conditionalDecrement_spec i expected d =
     update_vouchers (\<lambda>r. vid r = i \<and> total_redeemed r = expected)
       (\<lambda>r. r\<lparr>total_redeemed := expected - 1\<rparr>) d"

text \<open>The capacity invariant of the data model, for one voucher and for the whole store.\<close>

definition capacity_ok :: "voucher \<Rightarrow> bool" where
  "capacity_ok v = (0 \<le> total_redeemed v \<and> total_redeemed v \<le> max_total_redemptions v)"

definition capacity_inv :: "db \<Rightarrow> bool" where
  "capacity_inv d = list_all capacity_ok (vouchers d)"

section \<open>Runs of the service\<close>

text \<open>A request runs alone when no other client touches the store between its calls.\<close>

definition alone :: "env \<Rightarrow> bool" where
  "alone e = (others e = (\<lambda>k d. d))"

text \<open>
  An update keeps the capacity when it names no \<open>max_total_redemptions\<close>, or one that is
  not below \<open>total_redeemed\<close> of the voucher it addresses.
\<close>

definition keeps_capacity :: "string \<Rightarrow> update_body \<Rightarrow> db \<Rightarrow> bool" where
  "keeps_capacity i b d =
     (case upd_max_total_redemptions b of
        None \<Rightarrow> True
      | Some m \<Rightarrow> list_all (\<lambda>r. vid r = i \<longrightarrow> total_redeemed r \<le> m) (vouchers d))"

definition empty_db :: db where
  "empty_db = \<lparr>vouchers = [], voucher_redemptions = []\<rparr>"

text \<open>
  The stores the service reaches from the empty one when requests run one after the
  other, with any caller, any body, any clock and any storage fault, and with updates
  that keep the capacity.
\<close>

inductive reachable :: "db \<Rightarrow> bool" where
  start: "reachable empty_db"
| create: "reachable d \<Longrightarrow> alone e \<Longrightarrow> reachable (snd (create_route e req_user b d))"
| redeem: "reachable d \<Longrightarrow> alone e \<Longrightarrow> reachable (snd (redeem_route e c req_user body d))"
| delete: "reachable d \<Longrightarrow> alone e \<Longrightarrow> reachable (snd (delete_route e req_user i d))"
| update: "reachable d \<Longrightarrow> alone e \<Longrightarrow> keeps_capacity i b d \<Longrightarrow>
           reachable (snd (update_route e req_user i b d))"

definition store_inv :: "db \<Rightarrow> bool" where
  "store_inv d = (distinct (map vid (vouchers d)) \<and> capacity_inv d)"

section \<open>Concrete vouchers, callers and stores\<close>

text \<open>
  The voucher of the specification's scenario (30 percent, capped at 30000, minimum order
  50000, one redemption), the same voucher with room for five redemptions, and one whose
  cap is 0.
\<close>

definition promo :: voucher where
  "promo = \<lparr>vid = ''v1'', code = ''NEWYEAR2026'', name = ''New Year Discount'',
     description = None, discount_type = PERCENT, discount_value = 30, currency = ''IDR'',
     min_order_amount = 50000, max_discount_amount = Some 30000, max_total_redemptions = 1,
     total_redeemed = 0, start_at = None, end_at = None, is_active = True,
     created_by = ''admin''\<rparr>"

definition promo5 :: voucher where
  "promo5 = promo\<lparr>max_total_redemptions := 5\<rparr>"

definition zero_cap :: voucher where
  "zero_cap = promo\<lparr>discount_value := 10, min_order_amount := 0, max_discount_amount := Some 0\<rparr>"

text \<open>A voucher of 100 percent without a cap, which the create schema accepts.\<close>

definition full_discount :: voucher where
  "full_discount = promo\<lparr>discount_value := 100, max_discount_amount := None\<rparr>"

definition alice :: user where
  "alice = \<lparr>uid = ''u1'', email = ''alice@example.test'', role = Some ''USER''\<rparr>"

definition bob :: user where
  "bob = \<lparr>uid = ''u2'', email = ''bob@example.test'', role = Some ''USER''\<rparr>"

definition admin :: user where
  "admin = \<lparr>uid = ''admin'', email = ''admin@voucher.test'', role = Some ''ADMIN''\<rparr>"

text \<open>An environment without faults and without other clients.\<close>

definition calm :: env where
  "calm = \<lparr>now = 1000, db_clock = 1000, fresh_id = ''r1'',
            fails = (\<lambda>k. False), others = (\<lambda>k d. d)\<rparr>"

text \<open>
  Another client redeems \<open>promo5\<close> between this request's read of the voucher and its
  update of the counter.
\<close>

definition env_race :: env where
  "env_race = calm\<lparr>others := (\<lambda>k. if k = 2 then increment_counter promo5 else (\<lambda>d. d))\<rparr>"

text \<open>
  The insert fails, and another client redeems the voucher (counter 1 to 2) between this
  request's update of the counter and its rollback.
\<close>

definition env_lost :: env where
  "env_lost = calm\<lparr>fails := (\<lambda>k. k = 3),
     others := (\<lambda>k. if k = 4 then increment_counter (promo5\<lparr>total_redeemed := 1\<rparr>)
                     else (\<lambda>d. d))\<rparr>"

definition order150 :: redeem_body where
  "order150 = \<lparr>body_order_amount = 150000, body_order_id = Some ''ORD-001''\<rparr>"


definition order1000 :: redeem_body where
  "order1000 = \<lparr>body_order_amount = 1000, body_order_id = None\<rparr>"

definition shop :: db where
  "shop = \<lparr>vouchers = [promo5], voucher_redemptions = []\<rparr>"






definition promo_body :: create_body where
  "promo_body = \<lparr>new_code = ''NEWYEAR2026'', new_name = ''New Year Discount'',
     new_description = None, new_discount_type = PERCENT, new_discount_value = 30,
     new_currency = None, new_min_order_amount = Some 50000,
     new_max_discount_amount = Some 30000, new_max_total_redemptions = Some 5,
     new_start_at = None, new_end_at = None\<rparr>"

definition zero_cap_body :: create_body where
  "zero_cap_body = \<lparr>new_code = ''NEWYEAR2026'', new_name = ''New Year Discount'',
     new_description = None, new_discount_type = PERCENT, new_discount_value = 10,
     new_currency = None, new_min_order_amount = None,
     new_max_discount_amount = Some 0, new_max_total_redemptions = None,
     new_start_at = None, new_end_at = None\<rparr>"

definition shrink :: update_body where
  "shrink = \<lparr>upd_name = None, upd_description = None, upd_discount_type = None,
     upd_discount_value = None, upd_currency = None, upd_min_order_amount = None,
     upd_max_discount_amount = None, upd_max_total_redemptions = Some 1,
     upd_start_at = None, upd_end_at = None, upd_is_active = None\<rparr>"

text \<open>
  \<open>opened\<close>: the admin has created the voucher. \<open>busy\<close>: Alice and Bob have then each
  redeemed it.
\<close>

definition opened :: db where
  "opened = snd (create_route (calm\<lparr>fresh_id := ''v1''\<rparr>) (Some admin) promo_body empty_db)"

definition busy :: db where
  "busy = snd (redeem_route (calm\<lparr>fresh_id := ''r2''\<rparr>) ''NEWYEAR2026'' (Some bob) order150
            (snd (redeem_route calm ''NEWYEAR2026'' (Some alice) order150 opened)))"

section \<open>Evaluating the arithmetic and the handlers\<close>

lemma bitlen_numeral_step: "bitlen (numeral k) = bitlen (numeral k div 2) + 1"
  by (subst compute_bitlen) simp

lemma bitlen_one: "bitlen 1 = 1"
  by (subst compute_bitlen) simp

lemma floor_rat_numeral: "\<lfloor>numeral a / numeral b :: rat\<rfloor> = numeral a div numeral b"
  by (metis floor_divide_of_int_eq of_int_numeral)

lemma floor_rat_minus_numeral:
  "\<lfloor>- (numeral a / numeral b) :: rat\<rfloor> = - numeral a div numeral b"
  by (metis divide_minus_left floor_divide_of_int_eq of_int_neg_numeral of_int_numeral)

lemma floor_rat_one_numeral: "\<lfloor>1 / numeral b :: rat\<rfloor> = 1 div numeral b"
  by (metis floor_divide_of_int_eq of_int_1 of_int_numeral)

lemma floor_rat_minus_one_numeral: "\<lfloor>- (1 / numeral b) :: rat\<rfloor> = - 1 div numeral b"
  by (metis (mono_tags, opaque_lifting) div_minus_right minus_divide_right
      floor_divide_of_int_eq of_int_neg_numeral of_int_1)

lemmas number_defs =
  fl_def round_pos_def exponent_def round_even_def negate_def js_times_def js_divide_def
  js_floor_def js_greater_def js_minus_def bitlen_numeral_step bitlen_one floor_rat_numeral
  floor_rat_minus_numeral floor_rat_one_numeral floor_rat_minus_one_numeral

lemmas handler_defs =
  requireUser_def requireAdmin_def single_def update_vouchers_def delete_vouchers_def
  insert_voucher_rejected_def compute_discount_def compute_final_def truthy_def number_defs
  select_voucher_by_code_def check_voucher_def existing_redeem_def new_redemption_def
  redeem_result_def increment_counter_def rollback_counter_def redeem_commit_def
  redeem_handler_def redeem_route_def opt_all_def createVoucherSchema_def new_voucher_def
  create_handler_def create_route_def updateSchema_def or_else_def or_else_num_def
  or_else_opt_def apply_update_def update_handler_def update_route_def delete_handler_def
  delete_route_def Let_def

lemma opened_eq: "opened = shop"
  by (simp add: opened_def shop_def promo5_def promo_def promo_body_def admin_def calm_def
      empty_db_def handler_defs)

lemma busy_eq:
  "busy =
     \<lparr>vouchers = [promo5\<lparr>total_redeemed := 2\<rparr>],
      voucher_redemptions =
        [\<lparr>rid = ''r1'', voucher_id = ''v1'', user_id = ''u1'', order_id = Some ''ORD-001'',
          order_amount = 150000, discount_amount = Finite 30000, final_amount = Finite 120000,
          status = SUCCESS, redeemed_at = 1000\<rparr>,
         \<lparr>rid = ''r2'', voucher_id = ''v1'', user_id = ''u2'', order_id = Some ''ORD-001'',
          order_amount = 150000, discount_amount = Finite 30000, final_amount = Finite 120000,
          status = SUCCESS, redeemed_at = 1000\<rparr>]\<rparr>"
  by (simp add: busy_def opened_eq shop_def promo5_def promo_def alice_def bob_def calm_def
      order150_def handler_defs)

lemma reachable_busy: "reachable busy"
  unfolding busy_def opened_def
  by (intro reachable.intros) (simp_all add: alone_def calm_def)

section \<open>Double arithmetic on integers below \<open>2^53\<close>\<close>

text \<open>
  Rounding never leaves an interval whose ends are integers below \<open>2^53\<close>, for these are
  doubles. So an integer below \<open>2^53\<close> is rounded to itself, and while the order amount
  and its product with the percentage stay below \<open>2^53\<close>, the discount the handler
  computes is an integer between 0 and the order amount and the final amount is their
  exact difference.
\<close>

lemma round_even_lower: "of_int a \<le> x \<Longrightarrow> a \<le> round_even x"
proof -
  assume "of_int a \<le> x"
  then have "a \<le> \<lfloor>x\<rfloor>" by (simp add: le_floor_iff)
  then show ?thesis by (simp add: round_even_def Let_def)
qed

lemma round_even_upper: "x \<le> of_int b \<Longrightarrow> round_even x \<le> b"
proof -
  assume le: "x \<le> of_int b"
  have fl: "\<lfloor>x\<rfloor> \<le> b" using le by (simp add: floor_le_iff)
  have "\<lfloor>x\<rfloor> + 1 \<le> b" if "0 < x - of_int \<lfloor>x\<rfloor>"
  proof -
    from that have "of_int \<lfloor>x\<rfloor> < x" by simp
    with le have "of_int \<lfloor>x\<rfloor> < (of_int b :: rat)" by linarith
    then show ?thesis by simp
  qed
  with fl show ?thesis by (auto simp: round_even_def Let_def)
qed

lemma exponent_le: "0 < x \<Longrightarrow> 2 powi (exponent x) \<le> x"
proof (cases "1 \<le> x")
  case True
  assume "0 < x"
  let ?n = "\<lfloor>x\<rfloor>"
  from True have pos: "0 < ?n" by simp
  then have b: "2 ^ nat (bitlen ?n - 1) \<le> ?n" using bitlen_bounds by blast
  from pos have "bitlen ?n \<noteq> 0" by (simp add: bitlen_eq_zero_iff)
  with bitlen_nonneg[of ?n] have "1 \<le> bitlen ?n" by linarith
  then have "(2::rat) powi (bitlen ?n - 1) = 2 ^ nat (bitlen ?n - 1)"
    by (simp add: power_int_def)
  also have "\<dots> = of_int (2 ^ nat (bitlen ?n - 1))" by simp
  also have "\<dots> \<le> of_int ?n" using b by (simp only: of_int_le_iff)
  also have "\<dots> \<le> x" by simp
  finally show ?thesis using True by (simp add: exponent_def)
next
  case False
  assume xpos: "0 < x"
  let ?t = "- \<lfloor>- (1 / x)\<rfloor>"
  have t: "1 / x \<le> of_int ?t" by (metis ceiling_def le_of_int_ceiling)
  from False xpos have "1 < 1 / x" by (simp add: field_simps)
  with t have "1 < (of_int ?t :: rat)" by linarith
  then have t2: "0 < ?t - 1" by simp
  then have "?t - 1 < 2 ^ nat (bitlen (?t - 1))" using bitlen_bounds by blast
  then have "?t \<le> 2 ^ nat (bitlen (?t - 1))" by linarith
  then have "(of_int ?t :: rat) \<le> of_int (2 ^ nat (bitlen (?t - 1)))" by (simp only: of_int_le_iff)
  with t have "1 / x \<le> 2 ^ nat (bitlen (?t - 1))" by simp
  with xpos have "1 / 2 ^ nat (bitlen (?t - 1)) \<le> x" by (simp add: field_simps)
  moreover have "(2::rat) powi (- bitlen (?t - 1)) = 1 / 2 ^ nat (bitlen (?t - 1))"
    using bitlen_nonneg[of "?t - 1"] by (simp add: power_int_def field_simps)
  ultimately show ?thesis using False by (simp add: exponent_def)
qed


lemma round_pos_between:
  assumes "0 < x" and "of_int lo \<le> x" and "x \<le> of_int hi" and "hi < 2 ^ 53"
  shows "\<exists>y. round_pos x = Finite y \<and> of_int lo \<le> y \<and> y \<le> of_int hi"
proof -
  define e where "e = max (exponent x) (- 1022)"
  define k where "k = nat (52 - e)"
  have "2 powi (exponent x) \<le> x" using assms(1) by (rule exponent_le)
  also have "x \<le> of_int hi" by fact
  also have "(of_int hi :: rat) < of_int (2 ^ 53)" using assms(4) by (simp only: of_int_less_iff)
  finally have "(2::rat) powi (exponent x) < 2 powi 53" by simp
  then have "exponent x < 53" by (rule power_int_le_imp_less_exp[rotated]) simp_all
  then have e52: "e \<le> 52" by (simp add: e_def)
  then have u: "(2::rat) powi (e - 52) = 1 / 2 ^ k"
    by (simp add: k_def power_int_def field_simps)
  have scaled: "x / (1 / 2 ^ k) = x * 2 ^ k" by simp
  have lower: "lo * 2 ^ k \<le> round_even (x * 2 ^ k)"
  proof (rule round_even_lower)
    show "of_int (lo * 2 ^ k) \<le> x * 2 ^ k" using assms(2) by simp
  qed
  have upper: "round_even (x * 2 ^ k) \<le> hi * 2 ^ k"
  proof (rule round_even_upper)
    show "x * 2 ^ k \<le> of_int (hi * 2 ^ k)" using assms(3) by simp
  qed
  let ?y = "of_int (round_even (x * 2 ^ k)) * (1 / 2 ^ k) :: rat"
  have "(of_int (lo * 2 ^ k) :: rat) \<le> of_int (round_even (x * 2 ^ k))"
    using lower by (simp only: of_int_le_iff)
  then have ylo: "of_int lo \<le> ?y" by (simp add: field_simps)
  have "(of_int (round_even (x * 2 ^ k)) :: rat) \<le> of_int (hi * 2 ^ k)"
    using upper by (simp only: of_int_le_iff)
  then have yhi: "?y \<le> of_int hi" by (simp add: field_simps)
  have "(of_int hi :: rat) < of_int (2 ^ 53)" using assms(4) by (simp only: of_int_less_iff)
  also have "(of_int (2 ^ 53) :: rat) \<le> 2 powi 1024" by simp
  finally have "?y < 2 powi 1024" using yhi by linarith
  then have "round_pos x = Finite ?y"
    using u scaled by (simp add: round_pos_def Let_def e_def[symmetric])
  with ylo yhi show ?thesis by blast
qed

lemma fl_between:
  assumes "0 \<le> x" and "of_int lo \<le> x" and "x \<le> of_int hi" and "hi < 2 ^ 53"
  shows "\<exists>y. fl x = Finite y \<and> of_int lo \<le> y \<and> y \<le> of_int hi"
proof (cases "x = 0")
  case True
  with assms show ?thesis by (simp add: fl_def)
next
  case False
  with assms(1) have "0 < x" by simp
  from round_pos_between[OF this assms(2,3,4)] \<open>0 < x\<close> show ?thesis
    by (simp add: fl_def)
qed

lemma fl_of_int: "0 \<le> n \<Longrightarrow> n < 2 ^ 53 \<Longrightarrow> fl (of_int n) = Finite (of_int n)"
  using fl_between[of "of_int n" n n] by auto


lemma final_exact:
  assumes "0 \<le> d" and "d \<le> amount" and "amount < 2 ^ 53"
  shows "js_minus amount (Finite (of_int d)) = Finite (of_int (amount - d))"
proof -
  have "fl (of_int (amount - d)) = Finite (of_int (amount - d))"
    using assms by (intro fl_of_int) simp_all
  then show ?thesis by (simp add: js_minus_def)
qed

lemma discount_within_order_exact:
  assumes "0 < amount" and "amount < 2 ^ 53"
    and "0 < discount_value v"
    and "discount_type v = PERCENT \<longrightarrow>
           discount_value v \<le> 100 \<and> amount * discount_value v < 2 ^ 53"
    and "opt_all (\<lambda>m. 0 \<le> m) (max_discount_amount v)"
  shows "\<exists>d. compute_discount v amount = Finite (of_int d) \<and> 0 \<le> d \<and> d \<le> amount \<and>
              compute_final v amount = Finite (of_int (amount - d))"
proof -
  have "\<exists>d. compute_discount v amount = Finite (of_int d) \<and> 0 \<le> d \<and> d \<le> amount"
  proof (cases "discount_type v")
    case FIXED
    with assms(1,3) show ?thesis
      by (cases "discount_value v > amount") (auto simp: compute_discount_def Let_def)
  next
    case PERCENT
    let ?k = "discount_value v"
    from PERCENT assms(4) have k: "?k \<le> 100" and small: "amount * ?k < 2 ^ 53" by simp_all
    have "0 \<le> amount * ?k" using assms(1,3) by simp
    then have "fl (of_int (amount * ?k)) = Finite (of_int (amount * ?k))"
      using small by (rule fl_of_int)
    then have product: "js_times amount ?k = Finite (of_int (amount * ?k))"
      by (simp add: js_times_def)
    have "amount * ?k \<le> amount * 100" using assms(1) k by simp
    then have "(of_int (amount * ?k) :: rat) \<le> of_int (amount * 100)"
      by (simp only: of_int_le_iff)
    then have hi: "(of_int (amount * ?k) :: rat) / of_int 100 \<le> of_int amount" by simp
    have lo: "(of_int 0 :: rat) \<le> of_int (amount * ?k) / of_int 100"
      using assms(1,3) by simp
    from lo have "(0::rat) \<le> of_int (amount * ?k) / of_int 100" by simp
    from fl_between[OF this lo hi assms(2)] obtain q where
      q: "fl (of_int (amount * ?k) / of_int 100) = Finite q" "0 \<le> q" "q \<le> of_int amount"
      by auto
    let ?d = "\<lfloor>q\<rfloor>"
    have floor: "js_floor (js_divide (js_times amount ?k) 100) = Finite (of_int ?d)"
      using product q(1) by (simp add: js_divide_def js_floor_def)
    have d: "0 \<le> ?d" "?d \<le> amount" using q(2,3) by (simp_all add: floor_le_iff le_floor_iff)
    show ?thesis
    proof (cases "max_discount_amount v")
      case None
      with PERCENT floor d show ?thesis by (auto simp: compute_discount_def Let_def)
    next
      case (Some m)
      with assms(5) have "0 \<le> m" by (simp add: opt_all_def)
      show ?thesis
      proof (cases "truthy (Some m) \<and> js_greater (Finite (of_int ?d)) m")
        case True
        then have "m < ?d" by (simp add: js_greater_def)
        with PERCENT Some floor True d \<open>0 \<le> m\<close> show ?thesis
          by (intro exI[of _ m]) (auto simp: compute_discount_def Let_def)
      next
        case False
        with PERCENT Some floor d show ?thesis
          by (intro exI[of _ ?d]) (auto simp: compute_discount_def Let_def)
      qed
    qed
  qed
  then obtain d where d: "compute_discount v amount = Finite (of_int d)" "0 \<le> d" "d \<le> amount"
    by blast
  from d(2,3) assms(2) have "js_minus amount (Finite (of_int d)) = Finite (of_int (amount - d))"
    by (rule final_exact)
  with d show ?thesis by (auto simp: compute_final_def)
qed

section \<open>General facts about the store\<close>

lemma single_SomeD: "single xs = Some x \<Longrightarrow> xs = [x]"
  by (auto simp: single_def split: list.splits)

lemma single_filter_mem: "single (filter P xs) = Some x \<Longrightarrow> x \<in> set xs"
proof -
  assume "single (filter P xs) = Some x"
  then have "filter P xs = [x]" by (rule single_SomeD)
  then have "x \<in> set (filter P xs)" by simp
  then show ?thesis by simp
qed

lemma select_voucher_by_code_mem:
  "select_voucher_by_code e c d = Some v \<Longrightarrow> v \<in> set (vouchers d)"
  by (auto simp: select_voucher_by_code_def dest: single_filter_mem split: if_splits)

lemma distinct_vid_eq:
  assumes "distinct (map vid xs)" and "x \<in> set xs" and "y \<in> set xs" and "vid x = vid y"
  shows "x = y"
  using assms by (meson distinct_map inj_onD)

lemma map_vid_same: "(\<And>r. vid (f r) = vid r) \<Longrightarrow> map vid (map f xs) = map vid xs"
  by (induction xs) auto

lemma list_all_map_each: "(\<And>r. r \<in> set xs \<Longrightarrow> P (f r)) \<Longrightarrow> list_all P (map f xs)"
  by (induction xs) auto

lemma vid_apply_update: "vid (apply_update b r) = vid r"
  by (simp add: apply_update_def)

lemma single_filter_update:
  assumes "single (filter P xs) = Some x" and "\<And>r. P (f r) = P r"
  shows "single (filter P (map (\<lambda>r. if P r then f r else r) xs)) = Some (f x)"
proof -
  have "filter P (map (\<lambda>r. if P r then f r else r) xs)
          = map (\<lambda>r. if P r then f r else r) (filter P xs)"
    using assms(2) by (induction xs) auto
  also have "\<dots> = map (\<lambda>r. if P r then f r else r) [x]"
    using single_SomeD[OF assms(1)] by simp
  also have "\<dots> = [f x]"
  proof -
    from single_SomeD[OF assms(1)] have "x \<in> set (filter P xs)" by simp
    then have "P x" by simp
    then show ?thesis by simp
  qed
  finally show ?thesis by (simp add: single_def)
qed

lemma increment_then_rollback:
  assumes "distinct (map vid (vouchers d))" and "v \<in> set (vouchers d)" and "\<not> fails e 4"
  shows "rollback_counter e v (increment_counter v d) = d"
proof -
  let ?inc = "\<lambda>r. if vid r = vid v \<and> total_redeemed r = total_redeemed v
                   then r\<lparr>total_redeemed := total_redeemed v + 1\<rparr> else r"
  let ?undo = "\<lambda>r. if vid r = vid v then r\<lparr>total_redeemed := total_redeemed v\<rparr> else r"
  have "?undo (?inc r) = r" if "r \<in> set (vouchers d)" for r
  proof (cases "vid r = vid v")
    case True
    with assms that have "r = v" by (blast intro: distinct_vid_eq)
    then show ?thesis by simp
  next
    case False
    then show ?thesis by simp
  qed
  then have "map (?undo \<circ> ?inc) (vouchers d) = vouchers d"
    by (intro map_idI) simp
  with assms(3) show ?thesis
    by (simp add: rollback_counter_def increment_counter_def update_vouchers_def)
qed

lemma check_voucher_room:
  "check_voucher t v amount = None \<Longrightarrow> total_redeemed v < max_total_redemptions v"
  by (simp add: check_voucher_def split: if_splits)



section \<open>The discount\<close>

text \<open>
  Claim C6. For a PERCENT voucher the discount is \<open>floor(order_amount * discount_value / 100)\<close>,
  clamped to \<open>max_discount_amount\<close> whenever that is set, also when it is 0. The voucher
  \<open>zero_cap\<close> (10 percent, cap 0) is what the create handler stores for \<open>zero_cap_body\<close>.
  On an order of 1000 the floor is 100, above the cap; the code tests the cap for
  truthiness, takes 0 for "not set", and grants 100 where the claim says 0.
\<close>

theorem zero_cap_is_ignored:
  "fst (create_handler (calm\<lparr>fresh_id := ''v1''\<rparr>) admin zero_cap_body empty_db)
     = Created zero_cap \<and>
   max_discount_amount zero_cap = Some 0 \<and>
   (body_order_amount order1000 * discount_value zero_cap) div 100 = 100 \<and>
   compute_discount zero_cap (body_order_amount order1000) = Finite 100 \<and>
   fst (redeem_handler calm ''NEWYEAR2026'' alice order1000
          \<lparr>vouchers = [zero_cap], voucher_redemptions = []\<rparr>)
     = Redeemed \<lparr>res_voucher_code = ''NEWYEAR2026'', res_voucher_name = ''New Year Discount'',
         res_discount_type = PERCENT, res_discount_value = 10, res_order_amount = 1000,
         res_discount_amount = Finite 100, res_final_amount = Finite 900, res_currency = ''IDR'',
         res_redeemed_at = 1000\<rparr>"
  by (simp add: zero_cap_def zero_cap_body_def promo_def order1000_def calm_def admin_def
      alice_def empty_db_def handler_defs)

text \<open>
  Claim C7. For every voucher (with \<open>discount_value\<close> at most 100 when PERCENT) and every
  positive order amount, the discount lies between 0 and the order amount and the final
  amount is not negative. The order amount 6000000000000002 is an integer below \<open>2^53\<close>,
  which the redeem schema accepts, and \<open>full_discount\<close> is a PERCENT voucher of 100 without
  a cap. The product of the two is rounded to a double, 600000000000000256, its quotient
  by 100 is rounded to 6000000000000003, and the handler grants a discount above the
  order amount and a final amount of -1. The FIXED branch clamps the discount to the
  order amount; the PERCENT branch does not.
\<close>

theorem percent_discount_exceeds_order:
  "discount_type full_discount = PERCENT \<and> discount_value full_discount = 100 \<and>
   js_times 6000000000000002 100 = Finite 600000000000000256 \<and>
   compute_discount full_discount 6000000000000002 = Finite 6000000000000003 \<and>
   compute_final full_discount 6000000000000002 = Finite (- 1)"
  by (simp add: full_discount_def promo_def compute_discount_def compute_final_def number_defs
      Let_def)

section \<open>Who may redeem\<close>

text \<open>
  Claim C10. A caller whose role is not exactly "USER" (an ADMIN, or a profile without a
  role) gets Forbidden from the redeem route, whatever the voucher code, the body and
  the store are, and the store is left as it was: the handler, and with it every read
  and write of vouchers and redemptions, is never entered.
\<close>

theorem redeem_forbidden_unless_user:
  "role u \<noteq> Some ''USER'' \<Longrightarrow> redeem_route e c (Some u) body d = (Forbidden, d)"
  by (simp add: redeem_route_def requireUser_def)

theorem redeem_forbidden_unless_user_witness:
  "redeem_route calm ''NEWYEAR2026'' (Some admin) order150 shop = (Forbidden, shop)"
  using redeem_forbidden_unless_user[of admin calm "''NEWYEAR2026''" order150 shop]
  by (simp add: admin_def)

section \<open>Eligibility\<close>








section \<open>Duplicate redemptions\<close>




section \<open>The update of the counter\<close>

text \<open>
  Claim C3. When the stored counter no longer equals the value read in step 1, the
  engine treats it as a conflict, retries up to three times, then answers
  ConcurrentConflict, and never answers success on this path. In the run below another
  client raises the counter of the voucher from 0 to 1 between Alice's read and her
  update. The update, filtered on the value read, matches no row, which the client
  library does not report as an error and the handler does not look for: after this
  single attempt the redemption is inserted and Alice is answered with success, while
  the counter stays at 1.
\<close>

theorem conflict_reports_success:
  "map total_redeemed (vouchers shop) = [0] \<and>
   map total_redeemed (vouchers (others env_race 2 (others env_race 1 shop))) = [1] \<and>
   fst (redeem_handler env_race ''NEWYEAR2026'' alice order150 shop)
     = Redeemed \<lparr>res_voucher_code = ''NEWYEAR2026'', res_voucher_name = ''New Year Discount'',
         res_discount_type = PERCENT, res_discount_value = 30, res_order_amount = 150000,
         res_discount_amount = Finite 30000, res_final_amount = Finite 120000,
         res_currency = ''IDR'', res_redeemed_at = 1000\<rparr> \<and>
   map user_id (voucher_redemptions
      (snd (redeem_handler env_race ''NEWYEAR2026'' alice order150 shop))) = [''u1''] \<and>
   map total_redeemed (vouchers (snd (redeem_handler env_race ''NEWYEAR2026'' alice order150 shop)))
     = [1]"
  by (simp add: shop_def env_race_def calm_def promo5_def promo_def alice_def order150_def
      handler_defs)

section \<open>The rollback\<close>

text \<open>
  Claim C2. After a failed ledger insert the engine reverts the counter by a decrement
  conditioned on the value this request set, and the caller receives the failure. In
  the run below Alice's request raises the counter from 0 to 1, another client's
  redemption raises it to 2, and Alice's insert fails. The rollback writes the value
  Alice read, 0, into the row selected by id only: the decrement of the specification
  would have left 2, and the redemption of the other client is no longer counted.
\<close>

theorem rollback_not_conditioned:
  "fst (redeem_handler env_lost ''NEWYEAR2026'' alice order150 shop)
     = DatabaseError RedemptionInsertFailed \<and>
   map total_redeemed (vouchers (others env_lost 4 (increment_counter promo5 shop))) = [2] \<and>
   map total_redeemed (vouchers (conditionalDecrement_spec ''v1'' 1
      (others env_lost 4 (increment_counter promo5 shop)))) = [2] \<and>
   map total_redeemed
      (vouchers (snd (redeem_handler env_lost ''NEWYEAR2026'' alice order150 shop))) = [0]"
  by (simp add: shop_def env_lost_def calm_def promo5_def promo_def alice_def order150_def
      conditionalDecrement_spec_def handler_defs)

section \<open>Deleting a voucher\<close>

text \<open>
  Claim C9. For an existing voucher (whose counter is not negative, and with the store
  answering), the delete operation succeeds if and only if \<open>total_redeemed\<close> is 0, and
  then removes the voucher; when \<open>total_redeemed\<close> is above 0 the delete is rejected with
  an error that carries the counter, and the store, with the voucher in it, is left as
  it was.
\<close>

theorem delete_iff_unused:
  assumes "\<not> fails e 0"
    and "single (filter (\<lambda>r. vid r = i) (vouchers d0)) = Some v"
    and "0 \<le> total_redeemed v"
    and "\<not> fails e 1"
  shows "(fst (delete_handler e i d0) = Deleted (code v) \<longleftrightarrow> total_redeemed v = 0) \<and>
         (total_redeemed v = 0 \<longrightarrow>
            snd (delete_handler e i d0) = delete_vouchers (\<lambda>r. vid r = i) (others e 1 d0)) \<and>
         (0 < total_redeemed v \<longrightarrow>
            delete_handler e i d0 = (InUse (total_redeemed v), d0) \<and> v \<in> set (vouchers d0))"
proof -
  from assms(2) have "v \<in> set (vouchers d0)" by (rule single_filter_mem)
  with assms show ?thesis
    by (auto simp: delete_handler_def Let_def)
qed

theorem delete_iff_unused_witness:
  "delete_handler calm ''v1'' busy = (InUse 2, busy) \<and>
   delete_handler calm ''v1'' shop = (Deleted ''NEWYEAR2026'', empty_db)"
proof -
  have reads: "\<not> fails calm 0" and writes: "\<not> fails calm 1" by (simp_all add: calm_def)
  have used: "single (filter (\<lambda>r. vid r = ''v1'') (vouchers busy))
                = Some (promo5\<lparr>total_redeemed := 2\<rparr>)"
    by (simp add: busy_eq single_def promo5_def promo_def)
  have unused: "single (filter (\<lambda>r. vid r = ''v1'') (vouchers shop)) = Some promo5"
    by (simp add: shop_def single_def promo5_def promo_def)
  have "delete_handler calm ''v1'' busy = (InUse 2, busy)"
    using delete_iff_unused[OF reads used _ writes] by simp
  moreover have "delete_handler calm ''v1'' shop = (Deleted ''NEWYEAR2026'', empty_db)"
    using delete_iff_unused[OF reads unused _ writes]
    by (simp add: prod_eq_iff promo5_def promo_def shop_def calm_def delete_vouchers_def
        empty_db_def)
  ultimately show ?thesis by simp
qed

section \<open>Updating a voucher\<close>

text \<open>
  Claim C8, as stated: an update whose \<open>max_redemptions\<close> is below the voucher's current
  \<open>redeemed_count\<close> is rejected as a validation error and leaves the voucher unchanged.
  The voucher of \<open>busy\<close> has been redeemed twice; the update to a limit of 1 is answered
  with success and stored.
\<close>

theorem update_accepts_shrink:
  "map total_redeemed (vouchers busy) = [2] \<and>
   upd_max_total_redemptions shrink = Some 1 \<and>
   fst (update_handler calm ''v1'' shrink busy)
     = Updated (promo5\<lparr>total_redeemed := 2, max_total_redemptions := 1\<rparr>) \<and>
   snd (update_handler calm ''v1'' shrink busy) \<noteq> busy"
  by (simp add: busy_eq shrink_def calm_def promo5_def promo_def handler_defs)

text \<open>
  Claim C8, amended. For every existing voucher and every update request that passes the
  schema and the checks on the percentage and on the window, a \<open>max_redemptions\<close> value
  is stored as it is given, without a comparison with the current \<open>redeemed_count\<close>,
  which stays as it is; the request is answered with the updated voucher.
\<close>

theorem update_stores_max_redemptions:
  assumes "updateSchema b"
    and "upd_max_total_redemptions b = Some m"
    and "\<not> fails e 0"
    and "single (filter (\<lambda>r. vid r = i) (vouchers d0)) = Some existing"
    and "\<not> (or_else (upd_discount_type b) (discount_type existing) = PERCENT \<and>
            or_else_num (upd_discount_value b) (discount_value existing) > 100)"
    and "\<not> (case (or_else_opt (upd_start_at b) (start_at existing),
                   or_else_opt (upd_end_at b) (end_at existing)) of
               (Some s, Some x) \<Rightarrow> x < s
             | _ \<Rightarrow> False)"
    and "\<not> fails e 1"
    and "single (filter (\<lambda>r. vid r = i) (vouchers (others e 1 d0))) = Some cur"
  shows "update_handler e i b d0 =
           (Updated (apply_update b cur),
            update_vouchers (\<lambda>r. vid r = i) (apply_update b) (others e 1 d0)) \<and>
         max_total_redemptions (apply_update b cur) = m \<and>
         total_redeemed (apply_update b cur) = total_redeemed cur"
proof -
  have "single (filter (\<lambda>r. vid r = i)
          (vouchers (update_vouchers (\<lambda>r. vid r = i) (apply_update b) (others e 1 d0))))
        = Some (apply_update b cur)"
    using single_filter_update[OF assms(8), of "apply_update b"]
    by (simp add: update_vouchers_def vid_apply_update)
  with assms show ?thesis
    by (simp add: update_handler_def Let_def apply_update_def or_else_def)
qed

theorem update_stores_max_redemptions_witness:
  "map max_total_redemptions (vouchers (snd (update_handler calm ''v1'' shrink busy))) = [1] \<and>
   map total_redeemed (vouchers (snd (update_handler calm ''v1'' shrink busy))) = [2]"
proof -
  let ?used = "promo5\<lparr>total_redeemed := 2\<rparr>"
  have schema: "updateSchema shrink" by (simp add: updateSchema_def opt_all_def shrink_def)
  have limit: "upd_max_total_redemptions shrink = Some 1" by (simp add: shrink_def)
  have reads: "\<not> fails calm 0" and writes: "\<not> fails calm 1" by (simp_all add: calm_def)
  have found: "single (filter (\<lambda>r. vid r = ''v1'') (vouchers busy)) = Some ?used"
    by (simp add: busy_eq single_def promo5_def promo_def)
  have percent: "\<not> (or_else (upd_discount_type shrink) (discount_type ?used) = PERCENT \<and>
                    or_else_num (upd_discount_value shrink) (discount_value ?used) > 100)"
    by (simp add: shrink_def or_else_def or_else_num_def promo5_def promo_def)
  have window: "\<not> (case (or_else_opt (upd_start_at shrink) (start_at ?used),
                          or_else_opt (upd_end_at shrink) (end_at ?used)) of
                      (Some s, Some x) \<Rightarrow> x < s
                    | _ \<Rightarrow> False)"
    by (simp add: shrink_def or_else_opt_def promo5_def promo_def)
  have still: "single (filter (\<lambda>r. vid r = ''v1'') (vouchers (others calm 1 busy))) = Some ?used"
    using found by (simp add: calm_def)
  have "snd (update_handler calm ''v1'' shrink busy)
          = update_vouchers (\<lambda>r. vid r = ''v1'') (apply_update shrink) (others calm 1 busy)"
    using update_stores_max_redemptions[OF schema limit reads found percent window writes still]
    by simp
  then show ?thesis
    by (simp add: busy_eq calm_def shrink_def promo5_def promo_def update_vouchers_def
        apply_update_def or_else_def or_else_opt_def)
qed

section \<open>The capacity invariant\<close>

lemma store_inv_create:
  assumes "store_inv d" and "alone e"
  shows "store_inv (snd (create_handler e u b d))"
proof -
  have "capacity_ok (new_voucher e u b)" if "createVoucherSchema b"
    using that
    by (auto simp: capacity_ok_def new_voucher_def createVoucherSchema_def opt_all_def
        split: option.splits)
  with assms show ?thesis
    by (auto simp: create_handler_def Let_def alone_def store_inv_def capacity_inv_def
        insert_voucher_rejected_def new_voucher_def)
qed

lemma store_inv_increment:
  assumes "store_inv d" and "v \<in> set (vouchers d)"
    and "total_redeemed v < max_total_redemptions v"
  shows "store_inv (increment_counter v d)"
proof -
  let ?inc = "\<lambda>r. if vid r = vid v \<and> total_redeemed r = total_redeemed v
                   then r\<lparr>total_redeemed := total_redeemed v + 1\<rparr> else r"
  have "map vid (map ?inc (vouchers d)) = map vid (vouchers d)"
    by (rule map_vid_same) simp
  with assms(1) have ids: "distinct (map vid (map ?inc (vouchers d)))"
    by (simp only: store_inv_def)
  have "capacity_ok (?inc r)" if "r \<in> set (vouchers d)" for r
  proof (cases "vid r = vid v")
    case True
    with assms that have "r = v" by (auto simp: store_inv_def intro: distinct_vid_eq)
    moreover from assms(1,2) have "capacity_ok v"
      by (simp add: store_inv_def capacity_inv_def list_all_iff)
    ultimately show ?thesis using assms(3) by (simp add: capacity_ok_def)
  next
    case False
    with assms(1) that show ?thesis
      by (simp add: store_inv_def capacity_inv_def list_all_iff)
  qed
  then have "list_all capacity_ok (map ?inc (vouchers d))"
    by (rule list_all_map_each)
  with ids show ?thesis
    by (simp add: store_inv_def capacity_inv_def increment_counter_def update_vouchers_def)
qed

lemma store_inv_ledger:
  "store_inv (d\<lparr>voucher_redemptions := rs\<rparr>) = store_inv d"
  by (simp add: store_inv_def capacity_inv_def)

lemma store_inv_redeem_commit:
  assumes "store_inv d" and "alone e" and "v \<in> set (vouchers d)"
    and "total_redeemed v < max_total_redemptions v"
  shows "store_inv (snd (redeem_commit e v userId body d))"
proof -
  have inc: "store_inv (increment_counter v d)"
    using assms(1,3,4) by (rule store_inv_increment)
  have "rollback_counter e v (increment_counter v d) = d" if "\<not> fails e 4"
    using assms(1,3) that by (simp add: store_inv_def increment_then_rollback)
  moreover have "rollback_counter e v (increment_counter v d) = increment_counter v d"
    if "fails e 4"
    using that by (simp add: rollback_counter_def)
  ultimately have "store_inv (rollback_counter e v (increment_counter v d))"
    using assms(1) inc by (cases "fails e 4") simp_all
  with assms(1,2) inc show ?thesis
    by (simp add: redeem_commit_def Let_def alone_def store_inv_ledger)
qed

lemma store_inv_redeem:
  assumes "store_inv d" and "alone e"
  shows "store_inv (snd (redeem_handler e c u body d))"
proof (cases "select_voucher_by_code e c d")
  case None
  with assms show ?thesis by (simp add: redeem_handler_def)
next
  case found: (Some v)
  then have mem: "v \<in> set (vouchers d)" by (rule select_voucher_by_code_mem)
  show ?thesis
  proof (cases "check_voucher (now e) v (body_order_amount body)")
    case (Some err)
    with assms found show ?thesis
      by (simp add: redeem_handler_def)
  next
    case None
    then have "total_redeemed v < max_total_redemptions v" by (rule check_voucher_room)
    with assms mem have "store_inv (snd (redeem_commit e v (uid u) body d))"
      by (simp add: store_inv_redeem_commit)
    with assms None found show ?thesis
      by (simp add: redeem_handler_def Let_def alone_def split: option.splits)
  qed
qed

lemma store_inv_delete:
  assumes "store_inv d" and "alone e"
  shows "store_inv (snd (delete_handler e i d))"
  using assms
  by (auto simp: delete_handler_def Let_def alone_def store_inv_def capacity_inv_def
      delete_vouchers_def distinct_map_filter list_all_iff split: option.splits)

lemma store_inv_update:
  assumes "store_inv d" and "alone e" and "keeps_capacity i b d"
  shows "store_inv (snd (update_handler e i b d))"
proof -
  let ?upd = "\<lambda>r. if vid r = i then apply_update b r else r"
  have "map vid (map ?upd (vouchers d)) = map vid (vouchers d)"
    by (rule map_vid_same) (simp add: vid_apply_update)
  with assms(1) have ids: "distinct (map vid (map ?upd (vouchers d)))"
    by (simp only: store_inv_def)
  have "capacity_ok (?upd r)" if "r \<in> set (vouchers d)" for r
  proof -
    from assms(1) that have ok: "capacity_ok r"
      by (simp add: store_inv_def capacity_inv_def list_all_iff)
    show ?thesis
    proof (cases "upd_max_total_redemptions b")
      case None
      with ok show ?thesis
        by (simp add: capacity_ok_def apply_update_def or_else_def)
    next
      case (Some m)
      with assms(3) that have "vid r = i \<longrightarrow> total_redeemed r \<le> m"
        by (simp add: keeps_capacity_def list_all_iff)
      with ok Some show ?thesis
        by (simp add: capacity_ok_def apply_update_def or_else_def)
    qed
  qed
  then have "list_all capacity_ok (map ?upd (vouchers d))"
    by (rule list_all_map_each)
  with ids have "store_inv (update_vouchers (\<lambda>r. vid r = i) (apply_update b) d)"
    by (simp add: store_inv_def capacity_inv_def update_vouchers_def)
  with assms(1,2) show ?thesis
    by (simp add: update_handler_def Let_def alone_def split: option.splits)
qed

lemma reachable_store_inv: "reachable d \<Longrightarrow> store_inv d"
proof (induction rule: reachable.induct)
  case start
  show ?case by (simp add: store_inv_def capacity_inv_def empty_db_def)
next
  case (create d e req_user b)
  then show ?case
    by (simp add: create_route_def store_inv_create split: sum.splits)
next
  case (redeem d e c req_user body)
  then show ?case
    by (simp add: redeem_route_def store_inv_redeem split: sum.splits)
next
  case (delete d e req_user i)
  then show ?case
    by (simp add: delete_route_def store_inv_delete split: sum.splits)
next
  case (update d e i b req_user)
  then show ?case
    by (simp add: update_route_def store_inv_update split: sum.splits)
qed

text \<open>
  Claim C1, as stated: every public operation, the administrative update of
  \<open>max_redemptions\<close> included, preserves \<open>0 \<le> redeemed_count \<le> max_redemptions\<close>. The
  store \<open>busy\<close> is reached by one create and two redeems and satisfies the invariant;
  the admin's update to a limit of 1 is accepted and leaves a voucher redeemed twice
  with a limit of 1.
\<close>

theorem update_breaks_capacity:
  "reachable busy \<and> capacity_inv busy \<and>
   fst (update_route calm (Some admin) ''v1'' shrink busy)
     = Updated (promo5\<lparr>total_redeemed := 2, max_total_redemptions := 1\<rparr>) \<and>
   \<not> capacity_inv (snd (update_route calm (Some admin) ''v1'' shrink busy))"
proof -
  have "capacity_inv busy \<and>
        fst (update_route calm (Some admin) ''v1'' shrink busy)
          = Updated (promo5\<lparr>total_redeemed := 2, max_total_redemptions := 1\<rparr>) \<and>
        \<not> capacity_inv (snd (update_route calm (Some admin) ''v1'' shrink busy))"
    by (simp add: busy_eq shrink_def calm_def admin_def promo5_def promo_def capacity_inv_def
        capacity_ok_def handler_defs)
  with reachable_busy show ?thesis by blast
qed

text \<open>
  Claim C1, amended. For every voucher, in every state reached from the empty store
  through create, delete, redeem and those updates that do not set \<open>max_redemptions\<close>
  below the current \<open>redeemed_count\<close> of the voucher they address, with requests handled
  one at a time, \<open>0 \<le> redeemed_count \<le> max_redemptions\<close> holds.
\<close>

theorem capacity_invariant_reachable: "reachable d \<Longrightarrow> capacity_inv d"
  using reachable_store_inv[of d] by (simp add: store_inv_def)

theorem capacity_invariant_reachable_witness:
  "capacity_inv busy \<and> map total_redeemed (vouchers busy) = [2] \<and>
   map max_total_redemptions (vouchers busy) = [5]"
proof -
  have "capacity_inv busy"
    using capacity_invariant_reachable[OF reachable_busy] .
  moreover have "map total_redeemed (vouchers busy) = [2] \<and>
                 map max_total_redemptions (vouchers busy) = [5]"
    by (simp add: busy_eq promo5_def promo_def)
  ultimately show ?thesis by simp
qed


end
